theory Spec2Isabelle
  imports Main "HOL-Library.Sublist" "HOL-Library.Word"
begin

section \<open>Strings of the try-on flow\<close>

text \<open>
  The flow of \<^verbatim>\<open>start.py\<close> is one function, \<^verbatim>\<open>swap_clothing\<close>. It builds a prompt
  from four measurements and an output mode, stages two images in temporary files,
  uploads them, asks the remote model for a result, walks the parts of the first
  candidate of the response and cleans up. Python strings are modelled as \<open>string\<close>;
  the line break of a triple-quoted literal is the character 10.
\<close>

definition nl :: string where
  "nl = [CHR 0x0A]"

subsection \<open>Decimal rendering of a measurement\<close>

text \<open>
  The number inputs of the page have integer bounds and defaults, so a measurement is a
  Python \<^verbatim>\<open>int\<close>, and \<^verbatim>\<open>{chest}\<close> in the f-string renders it as \<^verbatim>\<open>str\<close> does: decimal
  digits, most significant first, with a minus sign for a negative value.
\<close>

definition digit_char :: "nat \<Rightarrow> char" where
  "digit_char d = ''0123456789'' ! d"

function str_nat :: "nat \<Rightarrow> string" where
  "str_nat n = (if n < 10 then [digit_char n] else str_nat (n div 10) @ [digit_char (n mod 10)])"
  by pat_completeness auto
termination
  by (relation "measure (\<lambda>n. n)") auto

declare str_nat.simps [simp del]

definition str_int :: "int \<Rightarrow> string" where
  "str_int i = (if i < 0 then CHR ''-'' # str_nat (nat (- i)) else str_nat (nat i))"

subsection \<open>The prompt (lines 80 to 107)\<close>

definition prompt_intro :: string where
  "prompt_intro =
     nl @ ''            Generate a photorealistic try-on result.'' @ nl
     @ nl
     @ ''            PERSON:'' @ nl
     @ ''            - Preserve identity (face, hair, skin tone, expression).'' @ nl
     @ ''            - Keep background, lighting, and pose unchanged.'' @ nl
     @ nl
     @ ''            CLOTHING FIT (match measurements below):'' @ nl"

definition prompt_realism :: string where
  "prompt_realism =
     nl
     @ ''            Ensure clothing scales naturally to fit these proportions.'' @ nl
     @ ''            Retain fabric folds, wrinkles, and texture.'' @ nl
     @ nl
     @ ''            REALISM REQUIREMENTS:'' @ nl
     @ ''            - No distortion, misaligned patterns, or artifacts.'' @ nl
     @ ''            - Match lighting & shadows from original photo.'' @ nl
     @ ''            - Colors should look natural in the scene.'' @ nl
     @ nl"

text \<open>The clause appended at lines 104 to 107 when the mode is \<^verbatim>\<open>3D Model\<close>.\<close>

definition clause_3d :: string where
  "clause_3d =
     nl
     @ ''                Render as a 3D-style model or mannequin, showing body depth and garment draping'' @ nl
     @ ''                in three dimensions. Maintain realism while giving a 3D perspective.'' @ nl
     @ ''                ''"

definition base_prompt :: "int \<Rightarrow> int \<Rightarrow> int \<Rightarrow> int \<Rightarrow> string \<Rightarrow> string" where
  "base_prompt chest waist hips height output_mode =
     prompt_intro
     @ ''            - Chest: '' @ str_int chest @ '' inches'' @ nl
     @ ''            - Waist: '' @ str_int waist @ '' inches'' @ nl
     @ ''            - Hips: '' @ str_int hips @ '' inches'' @ nl
     @ ''            - Height: '' @ str_int height @ '' inches'' @ nl
     @ prompt_realism
     @ ''            OUTPUT MODE: '' @ output_mode @ nl
     @ ''            ''"

definition prompt :: "int \<Rightarrow> int \<Rightarrow> int \<Rightarrow> int \<Rightarrow> string \<Rightarrow> string" where
  "prompt chest waist hips height output_mode =
     (if output_mode = ''3D Model''
      then base_prompt chest waist hips height output_mode @ clause_3d
      else base_prompt chest waist hips height output_mode)"

text \<open>The two modes the radio control of line 209 offers.\<close>

definition output_modes :: "string list" where
  "output_modes = [''2D Image'', ''3D Model'']"

section \<open>Data of the flow\<close>

text \<open>
  A temporary file is named by a number; \<open>bytes\<close> is a Python \<^verbatim>\<open>bytes\<close> value. A decoded
  raster image (a PIL image) is kept as its pixel dimensions and its pixel data. An
  exception is kept as what the handler of line 166 reads from it: \<^verbatim>\<open>str(e)\<close> and
  \<^verbatim>\<open>type(e).__name__\<close>.
\<close>

type_synonym path = nat

type_synonym bytes = "8 word list"

record pil_image =
  img_width :: nat
  img_height :: nat
  img_pixels :: bytes

record exn =
  exn_msg :: string
  exn_type :: string

text \<open>
  The response of the generation call, as the walk of lines 143 to 161 reads it. Every
  optional attribute is an \<open>option\<close>; \<^verbatim>\<open>inline_data.data\<close> is either a \<^verbatim>\<open>bytes\<close> value
  or something else, which line 153 hands to \<^verbatim>\<open>base64.b64decode\<close>.
\<close>

datatype payload = Raw_bytes bytes | B64_text string

record blob =
  blob_data :: payload

record part =
  part_text :: "string option"
  part_inline_data :: "blob option"

record content =
  content_parts :: "part list option"

record candidate =
  cand_content :: "content option"

record response =
  resp_candidates :: "candidate list option"

record file_ref =
  file_uri :: string
  file_mime_type :: string

text \<open>What \<^verbatim>\<open>swap_clothing\<close> returns: the output image, if any, and the output text.\<close>

type_synonym result = "pil_image option \<times> string"

subsection \<open>The world outside the function\<close>

text \<open>
  The remote operations the function performs are logged in order; the file system is the
  list of temporary files that exist, together with the list of those this execution has
  created.
\<close>

datatype net_op =
    Client_new string
  | Files_upload path
  | Generate_content file_ref file_ref string
  | Files_delete string

record world =
  fs_files :: "path list"
  fs_created :: "path list"
  net_log :: "net_op list"

text \<open>
  The collaborators the specification leaves out of scope are parameters: each field gives
  the outcome of one external call, an exception or a value. \<open>recorded_warnings\<close> is
  the content of \<^verbatim>\<open>warning_list\<close> when the handler of line 165 runs.
\<close>

record env =
  client_new :: "string \<Rightarrow> exn option"
  image_save :: "pil_image \<Rightarrow> path \<Rightarrow> exn option"
  files_upload :: "path \<Rightarrow> exn + file_ref"
  generate_content :: "file_ref \<Rightarrow> file_ref \<Rightarrow> string \<Rightarrow> exn + response option"
  b64decode :: "string \<Rightarrow> exn + bytes"
  image_open :: "bytes \<Rightarrow> exn + pil_image"
  recorded_warnings :: "string list"

definition net_call :: "net_op \<Rightarrow> world \<Rightarrow> world" where
  "net_call op w = w\<lparr>net_log := net_log w @ [op]\<rparr>"

text \<open>
  \<^verbatim>\<open>tempfile.NamedTemporaryFile(delete=False)\<close> creates a file under a name no existing
  file has, and leaves it there when the \<^verbatim>\<open>with\<close> block ends.
\<close>

definition fresh_path :: "path list \<Rightarrow> path" where
  "fresh_path ps = Suc (fold max ps 0)"

definition named_temporary_file :: "world \<Rightarrow> path \<times> world" where
  "named_temporary_file w =
     (let p = fresh_path (fs_files w)
      in (p, w\<lparr>fs_files := p # fs_files w, fs_created := fs_created w @ [p]\<rparr>))"

definition path_exists :: "path \<Rightarrow> world \<Rightarrow> bool" where
  "path_exists p w = (p \<in> set (fs_files w))"

definition os_unlink :: "path \<Rightarrow> world \<Rightarrow> world" where
  "os_unlink p w = w\<lparr>fs_files := removeAll p (fs_files w)\<rparr>"

section \<open>The function \<^verbatim>\<open>swap_clothing\<close>\<close>

text \<open>
  A stretch of the \<^verbatim>\<open>try\<close> body ends in one of three ways: a \<^verbatim>\<open>return\<close> statement, an
  exception, or control reaching the next statement.
\<close>

datatype 'a flow = Return result | Raise exn | Next 'a

definition index_error :: exn where
  "index_error = \<lparr>exn_msg = ''list index out of range'', exn_type = ''IndexError''\<rparr>"

definition not_iterable_error :: exn where
  "not_iterable_error =
     \<lparr>exn_msg = [CHR 0x27] @ ''NoneType'' @ [CHR 0x27] @ '' object is not iterable'',
      exn_type = ''TypeError''\<rparr>"

subsection \<open>Staging and upload (lines 69 to 77)\<close>

text \<open>
  The loop of line 69 creates a temporary file for each image, saves the image under its
  name and only then appends the name to \<^verbatim>\<open>temp_files\<close>. The function returns the
  exception that stopped the loop, if any, and \<^verbatim>\<open>temp_files\<close> as the loop left it.
\<close>

fun stage_images :: "env \<Rightarrow> pil_image list \<Rightarrow> path list \<Rightarrow> world \<Rightarrow> exn option \<times> path list \<times> world" where
  "stage_images e [] temp_files w = (None, temp_files, w)"
| "stage_images e (img # imgs) temp_files w =
     (case named_temporary_file w of
        (p, w1) \<Rightarrow>
          (case image_save e img p of
             Some x \<Rightarrow> (Some x, temp_files, w1)
           | None \<Rightarrow> stage_images e imgs (temp_files @ [p]) w1))"

text \<open>
  Lines 74 to 77 build the list of the two uploads before they assign it: an exception in
  either upload leaves \<^verbatim>\<open>uploaded_files\<close> empty.
\<close>

definition upload_both :: "env \<Rightarrow> path list \<Rightarrow> world \<Rightarrow> (exn + file_ref list) \<times> world" where
  "upload_both e temp_files w =
     (case temp_files of
        t0 # t1 # rest \<Rightarrow>
          (case files_upload e t0 of
             Inl x \<Rightarrow> (Inl x, net_call (Files_upload t0) w)
           | Inr f0 \<Rightarrow>
               (case files_upload e t1 of
                  Inl x \<Rightarrow> (Inl x, net_call (Files_upload t1) (net_call (Files_upload t0) w))
                | Inr f1 \<Rightarrow>
                    (Inr [f0, f1], net_call (Files_upload t1) (net_call (Files_upload t0) w))))
      | [t0] \<Rightarrow>
          (case files_upload e t0 of
             Inl x \<Rightarrow> (Inl x, net_call (Files_upload t0) w)
           | Inr f0 \<Rightarrow> (Inl index_error, net_call (Files_upload t0) w))
      | [] \<Rightarrow> (Inl index_error, w))"

subsection \<open>From the guards to the generation call (lines 59 to 141)\<close>

text \<open>
  Line 62 binds \<^verbatim>\<open>api_key\<close> to the empty string, with the comment that a deployment
  replaces it by its key; the key is the first parameter of the model and
  \<open>shipped_api_key\<close> is the value in the source. Lines 109 to 141 assemble the request
  and send it; \<open>generate_content\<close> gives the outcome of that stretch for the two
  uploads and the prompt. The result carries the locals the \<^verbatim>\<open>finally\<close> block reads:
  \<^verbatim>\<open>temp_files\<close> and \<^verbatim>\<open>uploaded_files\<close>.
\<close>

definition shipped_api_key :: string where
  "shipped_api_key = []"

definition request_phase ::
  "string \<Rightarrow> env \<Rightarrow> pil_image option \<Rightarrow> pil_image option \<Rightarrow> int \<Rightarrow> int \<Rightarrow> int \<Rightarrow> int \<Rightarrow> string
     \<Rightarrow> world \<Rightarrow> response option flow \<times> path list \<times> file_ref list \<times> world" where
  "request_phase api_key e person_image clothing_image chest waist hips height output_mode w =
     (case person_image of
        None \<Rightarrow> (Return (None, ''Please upload both images.''), [], [], w)
      | Some person \<Rightarrow>
     (case clothing_image of
        None \<Rightarrow> (Return (None, ''Please upload both images.''), [], [], w)
      | Some clothing \<Rightarrow>
     if api_key = []
     then (Return (None, ''GEMINI_API_KEY not found. Please set it in your environment.''), [], [], w)
     else
     (case client_new e api_key of
        Some x \<Rightarrow> (Raise x, [], [], net_call (Client_new api_key) w)
      | None \<Rightarrow>
     (case stage_images e [person, clothing] [] (net_call (Client_new api_key) w) of
        (Some x, temp_files, w1) \<Rightarrow> (Raise x, temp_files, [], w1)
      | (None, temp_files, w1) \<Rightarrow>
     (case upload_both e temp_files w1 of
        (Inl x, w2) \<Rightarrow> (Raise x, temp_files, [], w2)
      | (Inr uploaded_files, w2) \<Rightarrow>
     (case uploaded_files of
        f0 # f1 # rest \<Rightarrow>
          (case generate_content e f0 f1 (prompt chest waist hips height output_mode) of
             Inl x \<Rightarrow>
               (Raise x, temp_files, uploaded_files,
                net_call (Generate_content f0 f1 (prompt chest waist hips height output_mode)) w2)
           | Inr resp \<Rightarrow>
               (Next resp, temp_files, uploaded_files,
                net_call (Generate_content f0 f1 (prompt chest waist hips height output_mode)) w2))
      | _ \<Rightarrow> (Raise index_error, temp_files, uploaded_files, w2)))))))"

subsection \<open>Walking the response (lines 143 to 163)\<close>

text \<open>
  Lines 151 to 159, inside the \<^verbatim>\<open>try\<close> of line 150: the payload is taken as it is when
  it is a \<^verbatim>\<open>bytes\<close> value and base64-decoded otherwise, written to a new temporary file,
  opened as an image, and the file is unlinked after the image was copied. An exception
  leaves the block at the statement that raised it.
\<close>

definition payload_bytes :: "env \<Rightarrow> payload \<Rightarrow> exn + bytes" where
  "payload_bytes e d = (case d of Raw_bytes bs \<Rightarrow> Inr bs | B64_text s \<Rightarrow> b64decode e s)"

definition decode_inline :: "env \<Rightarrow> payload \<Rightarrow> world \<Rightarrow> (exn + pil_image) \<times> world" where
  "decode_inline e d w =
     (case payload_bytes e d of
        Inl x \<Rightarrow> (Inl x, w)
      | Inr image_data \<Rightarrow>
          (case named_temporary_file w of
             (temp_file_path, w1) \<Rightarrow>
               (case image_open e image_data of
                  Inl x \<Rightarrow> (Inl x, w1)
                | Inr img \<Rightarrow> (Inr img, os_unlink temp_file_path w1))))"

text \<open>
  The loop of line 146 over the parts, on the state \<^verbatim>\<open>(output_image, output_text)\<close> and
  the world. A part with text adds the text and a line break; otherwise a part with inline
  data is decoded, and the image replaces \<^verbatim>\<open>output_image\<close> or the error is added to the
  text; a part with neither is skipped.
\<close>

fun walk_parts :: "env \<Rightarrow> part list \<Rightarrow> pil_image option \<times> string \<times> world \<Rightarrow> pil_image option \<times> string \<times> world" where
  "walk_parts e [] st = st"
| "walk_parts e (p # ps) (output_image, output_text, w) =
     (case part_text p of
        Some t \<Rightarrow> walk_parts e ps (output_image, output_text @ t @ nl, w)
      | None \<Rightarrow>
          (case part_inline_data p of
             None \<Rightarrow> walk_parts e ps (output_image, output_text, w)
           | Some b \<Rightarrow>
               (case decode_inline e (blob_data b) w of
                  (Inl img_error, w1) \<Rightarrow>
                    walk_parts e ps
                      (output_image,
                       output_text @ ''Error processing image: '' @ exn_msg img_error @ nl, w1)
                | (Inr img, w1) \<Rightarrow> walk_parts e ps (Some img, output_text, w1))))"

text \<open>
  Line 143 takes the first candidate of a response that has candidates; the \<^verbatim>\<open>else\<close> of
  line 162 belongs to that test, so the fixed message is the text of a response without
  candidates, and a first candidate without content leaves \<^verbatim>\<open>output_text\<close> empty.
  Iterating over parts that are \<^verbatim>\<open>None\<close> raises a \<^verbatim>\<open>TypeError\<close>. \<open>demux\<close> gives the
  exception, or the locals \<^verbatim>\<open>(output_image, output_text)\<close> that line 184 returns.
\<close>

definition first_candidate :: "response option \<Rightarrow> candidate option" where
  "first_candidate resp =
     (case resp of
        None \<Rightarrow> None
      | Some r \<Rightarrow>
          (case resp_candidates r of
             None \<Rightarrow> None
           | Some [] \<Rightarrow> None
           | Some (c # cs) \<Rightarrow> Some c))"

definition demux :: "env \<Rightarrow> response option \<Rightarrow> world \<Rightarrow> (exn + result) \<times> world" where
  "demux e resp w =
     (case first_candidate resp of
        None \<Rightarrow> (Inr (None, ''The model did not generate a valid response. Try again.''), w)
      | Some cand \<Rightarrow>
          (case cand_content cand of
             None \<Rightarrow> (Inr (None, []), w)
           | Some c \<Rightarrow>
               (case content_parts c of
                  None \<Rightarrow> (Inl not_iterable_error, w)
                | Some ps \<Rightarrow>
                    (case walk_parts e ps (None, [], w) of
                       (output_image, output_text, w1) \<Rightarrow> (Inr (output_image, output_text), w1)))))"

subsection \<open>Handler, cleanup and the whole function (lines 165 to 184)\<close>

definition error_details :: "exn \<Rightarrow> string list \<Rightarrow> string" where
  "error_details x warning_list =
     ''Error: '' @ exn_msg x @ '' | Type: '' @ exn_type x
     @ concat (map (\<lambda>m. nl @ ''- Warning: '' @ m) warning_list)"

fun unlink_temp_files :: "path list \<Rightarrow> world \<Rightarrow> world" where
  "unlink_temp_files [] w = w"
| "unlink_temp_files (temp_file # rest) w =
     unlink_temp_files rest (if path_exists temp_file w then os_unlink temp_file w else w)"

text \<open>
  The deletion of an upload is attempted and whatever it raises is dropped (line 180), so
  only the attempt is recorded.
\<close>

fun delete_uploaded :: "file_ref list \<Rightarrow> world \<Rightarrow> world" where
  "delete_uploaded [] w = w"
| "delete_uploaded (uploaded_file # rest) w =
     delete_uploaded rest (net_call (Files_delete (file_uri uploaded_file)) w)"

definition cleanup :: "path list \<Rightarrow> file_ref list \<Rightarrow> world \<Rightarrow> world" where
  "cleanup temp_files uploaded_files w = delete_uploaded uploaded_files (unlink_temp_files temp_files w)"

text \<open>
  The \<^verbatim>\<open>try\<close> statement: the body is the request phase followed by the walk; an exception
  becomes the error text of line 166 with no image; the \<^verbatim>\<open>finally\<close> block runs on the way
  out of every case, and the function returns a pair in each.
\<close>

definition swap_clothing ::
  "string \<Rightarrow> env \<Rightarrow> pil_image option \<Rightarrow> pil_image option \<Rightarrow> int \<Rightarrow> int \<Rightarrow> int \<Rightarrow> int \<Rightarrow> string
     \<Rightarrow> world \<Rightarrow> result \<times> world" where
  "swap_clothing api_key e person_image clothing_image chest waist hips height output_mode w =
     (case request_phase api_key e person_image clothing_image chest waist hips height output_mode w of
        (Return r, temp_files, uploaded_files, w1) \<Rightarrow> (r, cleanup temp_files uploaded_files w1)
      | (Raise x, temp_files, uploaded_files, w1) \<Rightarrow>
          ((None, error_details x (recorded_warnings e)), cleanup temp_files uploaded_files w1)
      | (Next resp, temp_files, uploaded_files, w1) \<Rightarrow>
          (case demux e resp w1 of
             (Inl x, w2) \<Rightarrow>
               ((None, error_details x (recorded_warnings e)), cleanup temp_files uploaded_files w2)
           | (Inr r, w2) \<Rightarrow> (r, cleanup temp_files uploaded_files w2)))"

text \<open>The temporary files an execution created that still exist in the world it left.\<close>

definition leftover :: "world \<Rightarrow> path list" where
  "leftover w = filter (\<lambda>p. path_exists p w) (fs_created w)"

text \<open>
  A part from which the walk takes an image: it carries no text, it carries inline data,
  and the payload decodes.
\<close>

definition yields_image :: "env \<Rightarrow> part \<Rightarrow> bool" where
  "yields_image e q =
     (case part_text q of
        Some t \<Rightarrow> False
      | None \<Rightarrow>
          (case part_inline_data q of
             None \<Rightarrow> False
           | Some b \<Rightarrow>
               (case payload_bytes e (blob_data b) of
                  Inl x \<Rightarrow> False
                | Inr bs \<Rightarrow> (case image_open e bs of Inl x \<Rightarrow> False | Inr img \<Rightarrow> True))))"

section \<open>Sample inputs\<close>

text \<open>
  Concrete collaborators for running the model. The sample decoder reads a toy format:
  one byte of width, one byte of height, then one byte for each pixel; anything else is
  rejected as an unidentified image. The sample base64 decoder knows the encoding of one
  such file. Client, save, upload and generation succeed, and the generation call
  answers with the response the environment was built from.
\<close>

definition sample_person :: pil_image where
  "sample_person = \<lparr>img_width = 2, img_height = 2, img_pixels = [10, 20, 30, 40]\<rparr>"

definition sample_clothing :: pil_image where
  "sample_clothing = \<lparr>img_width = 1, img_height = 1, img_pixels = [5]\<rparr>"

definition empty_world :: world where
  "empty_world = \<lparr>fs_files = [], fs_created = [], net_log = []\<rparr>"

definition unidentified_image :: exn where
  "unidentified_image =
     \<lparr>exn_msg = ''cannot identify image file'', exn_type = ''UnidentifiedImageError''\<rparr>"

definition incorrect_padding :: exn where
  "incorrect_padding = \<lparr>exn_msg = ''Incorrect padding'', exn_type = ''Error''\<rparr>"

definition rgba_as_jpeg :: exn where
  "rgba_as_jpeg = \<lparr>exn_msg = ''cannot write mode RGBA as JPEG'', exn_type = ''OSError''\<rparr>"

definition sample_open :: "bytes \<Rightarrow> exn + pil_image" where
  "sample_open bs =
     (case bs of
        wd # ht # px \<Rightarrow>
          if length px = unat wd * unat ht
          then Inr \<lparr>img_width = unat wd, img_height = unat ht, img_pixels = px\<rparr>
          else Inl unidentified_image
      | _ \<Rightarrow> Inl unidentified_image)"

definition sample_b64decode :: "string \<Rightarrow> exn + bytes" where
  "sample_b64decode s = (if s = ''AgEHCA=='' then Inr [2, 1, 7, 8] else Inl incorrect_padding)"

definition sample_upload :: "path \<Rightarrow> exn + file_ref" where
  "sample_upload p = Inr \<lparr>file_uri = ''files/'' @ str_nat p, file_mime_type = ''image/jpeg''\<rparr>"

definition sample_env :: "response option \<Rightarrow> env" where
  "sample_env resp =
     \<lparr>client_new = (\<lambda>k. None),
      image_save = (\<lambda>img p. None),
      files_upload = sample_upload,
      generate_content = (\<lambda>f0 f1 pr. Inr resp),
      b64decode = sample_b64decode,
      image_open = sample_open,
      recorded_warnings = []\<rparr>"

definition text_part :: "string \<Rightarrow> part" where
  "text_part t = \<lparr>part_text = Some t, part_inline_data = None\<rparr>"

definition inline_part :: "payload \<Rightarrow> part" where
  "inline_part d = \<lparr>part_text = None, part_inline_data = Some \<lparr>blob_data = d\<rparr>\<rparr>"

definition candidate_of :: "part list \<Rightarrow> candidate" where
  "candidate_of ps = \<lparr>cand_content = Some \<lparr>content_parts = Some ps\<rparr>\<rparr>"

definition response_of :: "candidate list \<Rightarrow> response" where
  "response_of cs = \<lparr>resp_candidates = Some cs\<rparr>"

text \<open>
  The references the sample upload gives for the two staged files, and the world a run from
  \<open>empty_world\<close> with the key \<^verbatim>\<open>key\<close> is in after the generation call: the files
  that exist, the files created so far, and the four remote operations.
\<close>

definition sample_refs :: "file_ref list" where
  "sample_refs =
     [\<lparr>file_uri = ''files/1'', file_mime_type = ''image/jpeg''\<rparr>,
      \<lparr>file_uri = ''files/2'', file_mime_type = ''image/jpeg''\<rparr>]"

definition sample_world :: "path list \<Rightarrow> path list \<Rightarrow> string \<Rightarrow> world" where
  "sample_world existing made pr =
     \<lparr>fs_files = existing, fs_created = made,
      net_log =
        [Client_new ''key'', Files_upload 1, Files_upload 2,
         Generate_content
           \<lparr>file_uri = ''files/1'', file_mime_type = ''image/jpeg''\<rparr>
           \<lparr>file_uri = ''files/2'', file_mime_type = ''image/jpeg''\<rparr> pr]\<rparr>"

section \<open>The prompt\<close>

lemma sublist_base_prompt:
  "sublist (str_int chest @ '' inches'') (base_prompt chest waist hips height m)"
  "sublist (str_int waist @ '' inches'') (base_prompt chest waist hips height m)"
  "sublist (str_int hips @ '' inches'') (base_prompt chest waist hips height m)"
  "sublist (str_int height @ '' inches'') (base_prompt chest waist hips height m)"
proof -
  let ?tail = "''            OUTPUT MODE: '' @ m @ nl @ ''            ''"
  have "base_prompt chest waist hips height m
        = (prompt_intro @ ''            - Chest: '') @ (str_int chest @ '' inches'')
          @ (nl @ ''            - Waist: '' @ str_int waist @ '' inches'' @ nl
             @ ''            - Hips: '' @ str_int hips @ '' inches'' @ nl
             @ ''            - Height: '' @ str_int height @ '' inches'' @ nl
             @ prompt_realism @ ?tail)"
    by (simp only: base_prompt_def append_assoc)
  then show "sublist (str_int chest @ '' inches'') (base_prompt chest waist hips height m)"
    by (simp only: sublist_appendI)
  have "base_prompt chest waist hips height m
        = (prompt_intro @ ''            - Chest: '' @ str_int chest @ '' inches'' @ nl
           @ ''            - Waist: '') @ (str_int waist @ '' inches'')
          @ (nl @ ''            - Hips: '' @ str_int hips @ '' inches'' @ nl
             @ ''            - Height: '' @ str_int height @ '' inches'' @ nl
             @ prompt_realism @ ?tail)"
    by (simp only: base_prompt_def append_assoc)
  then show "sublist (str_int waist @ '' inches'') (base_prompt chest waist hips height m)"
    by (simp only: sublist_appendI)
  have "base_prompt chest waist hips height m
        = (prompt_intro @ ''            - Chest: '' @ str_int chest @ '' inches'' @ nl
           @ ''            - Waist: '' @ str_int waist @ '' inches'' @ nl
           @ ''            - Hips: '') @ (str_int hips @ '' inches'')
          @ (nl @ ''            - Height: '' @ str_int height @ '' inches'' @ nl
             @ prompt_realism @ ?tail)"
    by (simp only: base_prompt_def append_assoc)
  then show "sublist (str_int hips @ '' inches'') (base_prompt chest waist hips height m)"
    by (simp only: sublist_appendI)
  have "base_prompt chest waist hips height m
        = (prompt_intro @ ''            - Chest: '' @ str_int chest @ '' inches'' @ nl
           @ ''            - Waist: '' @ str_int waist @ '' inches'' @ nl
           @ ''            - Hips: '' @ str_int hips @ '' inches'' @ nl
           @ ''            - Height: '') @ (str_int height @ '' inches'')
          @ (nl @ prompt_realism @ ?tail)"
    by (simp only: base_prompt_def append_assoc)
  then show "sublist (str_int height @ '' inches'') (base_prompt chest waist hips height m)"
    by (simp only: sublist_appendI)
qed

lemma sublist_prompt:
  assumes "sublist xs (base_prompt chest waist hips height m)"
  shows "sublist xs (prompt chest waist hips height m)"
proof (cases "m = ''3D Model''")
  case True
  then have "prompt chest waist hips height m = base_prompt chest waist hips height m @ clause_3d"
    unfolding prompt_def by (rule if_P)
  moreover have "sublist (base_prompt chest waist hips height m)
                   (base_prompt chest waist hips height m @ clause_3d)"
    by (rule sublist_append_rightI)
  ultimately show ?thesis
    using assms sublist_order.order.trans by metis
next
  case False
  then have "prompt chest waist hips height m = base_prompt chest waist hips height m"
    unfolding prompt_def by (rule if_not_P)
  with assms show ?thesis by (simp only:)
qed

text \<open>
  C8. For measurements within the bounds of the number inputs (chest, waist and hips from
  20 to 60, height from 50 to 84) and either output mode, the prompt contains, for each of
  the four values, its decimal rendering followed by \<^verbatim>\<open> inches\<close>.
\<close>

theorem prompt_contains_measurements:
  assumes "20 \<le> chest" "chest \<le> 60" "20 \<le> waist" "waist \<le> 60" "20 \<le> hips" "hips \<le> 60"
    and "50 \<le> height" "height \<le> 84" and "output_mode \<in> set output_modes"
  shows "sublist (str_int chest @ '' inches'') (prompt chest waist hips height output_mode)
       \<and> sublist (str_int waist @ '' inches'') (prompt chest waist hips height output_mode)
       \<and> sublist (str_int hips @ '' inches'') (prompt chest waist hips height output_mode)
       \<and> sublist (str_int height @ '' inches'') (prompt chest waist hips height output_mode)"
  by (intro conjI sublist_prompt sublist_base_prompt)

lemma str_int_samples: "str_int 38 = ''38''" "str_int 32 = ''32''" "str_int 40 = ''40''" "str_int 68 = ''68''"
  by code_simp+

theorem prompt_contains_measurements_witness:
  "((20::int) \<le> 38 \<and> (38::int) \<le> 60 \<and> (20::int) \<le> 32 \<and> (32::int) \<le> 60 \<and> (20::int) \<le> 40 \<and> (40::int) \<le> 60
    \<and> (50::int) \<le> 68 \<and> (68::int) \<le> 84 \<and> ''3D Model'' \<in> set output_modes)
   \<and> sublist ''38 inches'' (prompt 38 32 40 68 ''3D Model'')
   \<and> sublist ''32 inches'' (prompt 38 32 40 68 ''3D Model'')
   \<and> sublist ''40 inches'' (prompt 38 32 40 68 ''3D Model'')
   \<and> sublist ''68 inches'' (prompt 38 32 40 68 ''3D Model'')"
proof -
  have m: "''3D Model'' \<in> set output_modes" by (simp add: output_modes_def)
  have b: "(20::int) \<le> 38" "(38::int) \<le> 60" "(20::int) \<le> 32" "(32::int) \<le> 60"
     "(20::int) \<le> 40" "(40::int) \<le> 60" "(50::int) \<le> 68" "(68::int) \<le> 84" by simp_all
  have "sublist (str_int 38 @ '' inches'') (prompt 38 32 40 68 ''3D Model'')
       \<and> sublist (str_int 32 @ '' inches'') (prompt 38 32 40 68 ''3D Model'')
       \<and> sublist (str_int 40 @ '' inches'') (prompt 38 32 40 68 ''3D Model'')
       \<and> sublist (str_int 68 @ '' inches'') (prompt 38 32 40 68 ''3D Model'')"
    by (rule prompt_contains_measurements [OF b m])
  then have "sublist ''38 inches'' (prompt 38 32 40 68 ''3D Model'')
   \<and> sublist ''32 inches'' (prompt 38 32 40 68 ''3D Model'')
   \<and> sublist ''40 inches'' (prompt 38 32 40 68 ''3D Model'')
   \<and> sublist ''68 inches'' (prompt 38 32 40 68 ''3D Model'')"
    unfolding str_int_samples by (simp only: append.simps)
  with m b show ?thesis by (simp only: simp_thms)
qed

subsection \<open>The three-dimensional clause\<close>

text \<open>
  The clause holds the letter q (in \<^verbatim>\<open>mannequin\<close>); the fixed text of the prompt, the
  rendering of an integer and the mode \<^verbatim>\<open>2D Image\<close> do not.
\<close>

lemma str_nat_chars: "set (str_nat n) \<subseteq> set ''0123456789''"
proof (induction n rule: str_nat.induct)
  case (1 n)
  have d: "\<And>k. k < 10 \<Longrightarrow> digit_char k \<in> set ''0123456789''"
    unfolding digit_char_def by (rule nth_mem) simp
  show ?case
  proof (cases "n < 10")
    case True
    then show ?thesis using d[of n] by (subst str_nat.simps) simp
  next
    case False
    have "n mod 10 < 10" by simp
    with 1 False d[of "n mod 10"] show ?thesis by (subst str_nat.simps) simp
  qed
qed

lemma q_not_digit: "CHR ''q'' \<notin> set ''0123456789''"
  by code_simp

lemma q_not_in_str_int: "CHR ''q'' \<notin> set (str_int i)"
  using str_nat_chars[of "nat i"] str_nat_chars[of "nat (- i)"] q_not_digit
  unfolding str_int_def by (cases "i < 0") auto

lemma q_in_clause_3d: "CHR ''q'' \<in> set clause_3d"
  by code_simp

lemma q_not_in_fixed_text:
  "CHR ''q'' \<notin> set prompt_intro"
  "CHR ''q'' \<notin> set prompt_realism"
  "CHR ''q'' \<notin> set nl"
  "CHR ''q'' \<notin> set ''            - Chest: ''"
  "CHR ''q'' \<notin> set ''            - Waist: ''"
  "CHR ''q'' \<notin> set ''            - Hips: ''"
  "CHR ''q'' \<notin> set ''            - Height: ''"
  "CHR ''q'' \<notin> set '' inches''"
  "CHR ''q'' \<notin> set ''            OUTPUT MODE: ''"
  "CHR ''q'' \<notin> set ''            ''"
  "CHR ''q'' \<notin> set ''2D Image''"
  by code_simp+

lemma q_not_in_base_prompt_2d: "CHR ''q'' \<notin> set (base_prompt chest waist hips height ''2D Image'')"
  unfolding base_prompt_def set_append Un_iff
  using q_not_in_fixed_text q_not_in_str_int by blast

text \<open>
  C9. For every measurement tuple and each of the two modes, the prompt contains the
  clause of lines 104 to 107 exactly when the mode is \<^verbatim>\<open>3D Model\<close>; with \<^verbatim>\<open>2D Image\<close> the
  clause is absent.
\<close>

theorem clause_3d_iff_mode:
  assumes "output_mode \<in> set output_modes"
  shows "sublist clause_3d (prompt chest waist hips height output_mode) \<longleftrightarrow> output_mode = ''3D Model''"
proof -
  from assms consider "output_mode = ''2D Image''" | "output_mode = ''3D Model''"
    by (auto simp: output_modes_def)
  then show ?thesis
  proof cases
    case 1
    have "\<not> sublist clause_3d (base_prompt chest waist hips height ''2D Image'')"
      using q_in_clause_3d q_not_in_base_prompt_2d set_mono_sublist by blast
    with 1 show ?thesis by (simp add: prompt_def)
  next
    case 2
    then show ?thesis by (simp add: prompt_def)
  qed
qed

theorem clause_3d_iff_mode_witness:
  "''2D Image'' \<in> set output_modes
   \<and> \<not> sublist clause_3d (prompt 38 32 40 68 ''2D Image'')
   \<and> ''3D Model'' \<in> set output_modes
   \<and> sublist clause_3d (prompt 38 32 40 68 ''3D Model'')"
proof -
  have m2: "''2D Image'' \<in> set output_modes" and m3: "''3D Model'' \<in> set output_modes"
    by (simp_all add: output_modes_def)
  have ne: "''2D Image'' \<noteq> ''3D Model''" by simp
  from clause_3d_iff_mode [OF m2, of 38 32 40 68] ne
  have a: "\<not> sublist clause_3d (prompt 38 32 40 68 ''2D Image'')" by blast
  from clause_3d_iff_mode [OF m3, of 38 32 40 68]
  have b: "sublist clause_3d (prompt 38 32 40 68 ''3D Model'')" by blast
  from m2 a m3 b show ?thesis by blast
qed

section \<open>The guards before any remote operation\<close>

lemma cleanup_nothing: "cleanup [] [] w = w"
  by (simp add: cleanup_def)

text \<open>
  C6. When the person image or the clothing image is absent, \<^verbatim>\<open>swap_clothing\<close> returns no
  image and the text \<^verbatim>\<open>Please upload both images.\<close>, and the world is the one it started
  in: no client was constructed, nothing was uploaded or generated, no file was created.
  This holds for every key and every behaviour of the collaborators.
\<close>

theorem missing_image_no_network:
  "person_image = None \<or> clothing_image = None \<Longrightarrow>
   swap_clothing api_key e person_image clothing_image chest waist hips height output_mode w
     = ((None, ''Please upload both images.''), w)"
  by (auto simp: swap_clothing_def request_phase_def cleanup_nothing split: option.splits)

theorem missing_image_no_network_witness:
  "((None :: pil_image option) = None \<or> Some sample_clothing = None)
   \<and> swap_clothing ''key'' (sample_env None) None (Some sample_clothing) 38 32 40 68 ''2D Image''
        empty_world
      = ((None, ''Please upload both images.''), empty_world)"
  using missing_image_no_network
          [of None "Some sample_clothing" "''key''" "sample_env None" 38 32 40 68 "''2D Image''"
              empty_world]
  by simp

text \<open>
  C7. With both images present and an empty credential, \<^verbatim>\<open>swap_clothing\<close> returns no
  image and the text of line 64, and the world is the one it started in: no temporary file
  was created and no remote operation was attempted.
\<close>

theorem empty_credential_no_staging:
  "swap_clothing [] e (Some person) (Some clothing) chest waist hips height output_mode w
     = ((None, ''GEMINI_API_KEY not found. Please set it in your environment.''), w)"
  by (simp add: swap_clothing_def request_phase_def cleanup_nothing)

section \<open>The walk over the parts of the first candidate\<close>

lemma walk_parts_append: "walk_parts e (xs @ ys) st = walk_parts e ys (walk_parts e xs st)"
proof (induction xs arbitrary: st)
  case Nil
  show ?case by simp
next
  case (Cons p xs)
  obtain oi ot w where st: "st = (oi, ot, w)" by (cases st)
  show ?case unfolding st
    by (simp add: Cons.IH split: option.split sum.split prod.split)
qed

lemma walk_parts_text_prefix: "prefix ot (fst (snd (walk_parts e ps (oi, ot, w))))"
proof (induction ps arbitrary: oi ot w)
  case Nil
  show ?case by simp
next
  case (Cons p ps)
  have ext: "\<And>s oi' w'. prefix ot (fst (snd (walk_parts e ps (oi', ot @ s, w'))))"
    using Cons.IH append_prefixD by blast
  show ?case
    using ext Cons.IH by (simp split: option.split sum.split prod.split)
qed

lemma swap_clothing_walk:
  assumes "request_phase k e pi ci chest waist hips height m w = (Next (Some r), tfs, ufs, w1)"
    and "resp_candidates r = Some (cand # cs)"
    and "cand_content cand = Some ct"
    and "content_parts ct = Some ps"
  shows "fst (swap_clothing k e pi ci chest waist hips height m w)
         = (case walk_parts e ps (None, [], w1) of (oi, ot, w2) \<Rightarrow> (oi, ot))"
  using assms
  by (simp add: swap_clothing_def demux_def first_candidate_def split: prod.split)

lemma walk_inline_failure:
  assumes "part_text p = None" "part_inline_data p = Some b"
    and "decode_inline e (blob_data b) w = (Inl x, w')"
  shows "walk_parts e (p # ps) (oi, ot, w)
         = walk_parts e ps (oi, ot @ ''Error processing image: '' @ exn_msg x @ nl, w')"
  using assms by simp

lemma walk_inline_success:
  assumes "part_text p = None" "part_inline_data p = Some b"
    and "decode_inline e (blob_data b) w = (Inr img, w')"
  shows "walk_parts e (p # ps) (oi, ot, w) = walk_parts e ps (Some img, ot, w')"
  using assms by simp

subsection \<open>The sample run up to the response\<close>

lemma str_nat_small: "str_nat (Suc 0) = ''1''" "str_nat 2 = ''2''"
  by code_simp+

lemma fresh_path_small:
  "fresh_path [] = Suc 0" "fresh_path [Suc 0] = 2" "fresh_path [2, Suc 0] = 3"
  by (simp_all add: fresh_path_def)

lemma sample_request_phase:
  "request_phase ''key'' (sample_env resp) (Some sample_person) (Some sample_clothing)
       chest waist hips height output_mode empty_world
     = (Next resp, [1, 2], sample_refs,
        sample_world [2, 1] [1, 2] (prompt chest waist hips height output_mode))"
  by (simp add: request_phase_def sample_env_def empty_world_def net_call_def
        named_temporary_file_def Let_def fresh_path_small upload_both_def sample_upload_def
        str_nat_small sample_refs_def sample_world_def)

lemma sample_decode_rejected:
  "decode_inline (sample_env resp) (Raw_bytes [9]) (sample_world [2, 1] [1, 2] pr)
     = (Inl unidentified_image, sample_world [3, 2, 1] [1, 2, 3] pr)"
  by (simp add: decode_inline_def payload_bytes_def sample_env_def sample_open_def
        named_temporary_file_def Let_def sample_world_def fresh_path_small)

subsection \<open>A part that fails to decode\<close>

text \<open>
  C5. When the decoding of the inline payload of a part raises, the walk adds
  \<^verbatim>\<open>Error processing image: \<close>, the message of the exception and a line break to the text
  accumulated so far, keeps the image it had, and goes on with the parts that follow: the
  pair \<^verbatim>\<open>swap_clothing\<close> returns is the outcome of walking the remaining parts from that
  state, and its text starts with the accumulated text and the error line.
\<close>

theorem decode_failure_appended_and_walk_continues:
  assumes "request_phase api_key e person_image clothing_image chest waist hips height output_mode w
             = (Next (Some r), temp_files, uploaded_files, w1)"
    and "resp_candidates r = Some (cand # cs)"
    and "cand_content cand = Some ct"
    and "content_parts ct = Some (pre @ p # post)"
    and "part_text p = None"
    and "part_inline_data p = Some b"
    and "walk_parts e pre (None, [], w1) = (output_image, output_text, w2)"
    and "decode_inline e (blob_data b) w2 = (Inl img_error, w3)"
  shows "fst (swap_clothing api_key e person_image clothing_image chest waist hips height output_mode w)
           = (case walk_parts e post
                     (output_image,
                      output_text @ ''Error processing image: '' @ exn_msg img_error @ nl, w3) of
                (final_image, final_text, w4) \<Rightarrow> (final_image, final_text))
         \<and> prefix (output_text @ ''Error processing image: '' @ exn_msg img_error @ nl)
              (snd (fst (swap_clothing api_key e person_image clothing_image chest waist hips height
                           output_mode w)))"
proof -
  let ?st = "(output_image, output_text @ ''Error processing image: '' @ exn_msg img_error @ nl, w3)"
  have "walk_parts e (pre @ p # post) (None, [], w1) = walk_parts e (p # post) (output_image, output_text, w2)"
    using assms(7) by (simp only: walk_parts_append)
  also have "\<dots> = walk_parts e post ?st"
    using assms(5,6,8) by (rule walk_inline_failure)
  finally have walk: "walk_parts e (pre @ p # post) (None, [], w1) = walk_parts e post ?st" .
  have res: "fst (swap_clothing api_key e person_image clothing_image chest waist hips height output_mode w)
           = (case walk_parts e post ?st of (final_image, final_text, w4) \<Rightarrow> (final_image, final_text))"
    using swap_clothing_walk [OF assms(1-4)] walk by (simp only:)
  have "prefix (output_text @ ''Error processing image: '' @ exn_msg img_error @ nl)
          (fst (snd (walk_parts e post ?st)))"
    by (rule walk_parts_text_prefix)
  then have "prefix (output_text @ ''Error processing image: '' @ exn_msg img_error @ nl)
          (snd (case walk_parts e post ?st of (final_image, final_text, w4) \<Rightarrow> (final_image, final_text)))"
    by (simp add: case_prod_beta)
  with res show ?thesis by (simp only: simp_thms)
qed


theorem decode_failure_appended_and_walk_continues_witness:
  "request_phase ''key''
       (sample_env (Some (response_of
          [candidate_of [text_part ''before'', inline_part (Raw_bytes [9]), text_part ''after'']])))
       (Some sample_person) (Some sample_clothing) 38 32 40 68 ''2D Image'' empty_world
     = (Next (Some (response_of
          [candidate_of [text_part ''before'', inline_part (Raw_bytes [9]), text_part ''after'']])),
        [1, 2], sample_refs, sample_world [2, 1] [1, 2] (prompt 38 32 40 68 ''2D Image''))
   \<and> decode_inline
       (sample_env (Some (response_of
          [candidate_of [text_part ''before'', inline_part (Raw_bytes [9]), text_part ''after'']])))
       (Raw_bytes [9]) (sample_world [2, 1] [1, 2] (prompt 38 32 40 68 ''2D Image''))
     = (Inl unidentified_image, sample_world [3, 2, 1] [1, 2, 3] (prompt 38 32 40 68 ''2D Image''))
   \<and> fst (swap_clothing ''key''
       (sample_env (Some (response_of
          [candidate_of [text_part ''before'', inline_part (Raw_bytes [9]), text_part ''after'']])))
       (Some sample_person) (Some sample_clothing) 38 32 40 68 ''2D Image'' empty_world)
     = (None,
        ''before'' @ nl @ ''Error processing image: cannot identify image file'' @ nl
        @ ''after'' @ nl)"
proof -
  let ?ps = "[text_part ''before'', inline_part (Raw_bytes [9]), text_part ''after'']"
  let ?r = "response_of [candidate_of ?ps]"
  let ?e = "sample_env (Some ?r)"
  let ?w1 = "sample_world [2, 1] [1, 2] (prompt 38 32 40 68 ''2D Image'')"
  let ?w3 = "sample_world [3, 2, 1] [1, 2, 3] (prompt 38 32 40 68 ''2D Image'')"
  have h1: "request_phase ''key'' ?e (Some sample_person) (Some sample_clothing) 38 32 40 68
              ''2D Image'' empty_world = (Next (Some ?r), [1, 2], sample_refs, ?w1)"
    by (rule sample_request_phase)
  have h2: "resp_candidates ?r = Some (candidate_of ?ps # [])"
    by (simp add: response_of_def)
  have h3: "cand_content (candidate_of ?ps) = Some \<lparr>content_parts = Some ?ps\<rparr>"
    by (simp add: candidate_of_def)
  have h4: "content_parts \<lparr>content_parts = Some ?ps\<rparr>
              = Some ([text_part ''before''] @ inline_part (Raw_bytes [9]) # [text_part ''after''])"
    by simp
  have h5: "part_text (inline_part (Raw_bytes [9])) = None"
    by (simp add: inline_part_def)
  have h6: "part_inline_data (inline_part (Raw_bytes [9])) = Some \<lparr>blob_data = Raw_bytes [9]\<rparr>"
    by (simp add: inline_part_def)
  have h7: "walk_parts ?e [text_part ''before''] (None, [], ?w1) = (None, ''before'' @ nl, ?w1)"
    by (simp add: text_part_def)
  have h8: "decode_inline ?e (blob_data \<lparr>blob_data = Raw_bytes [9]\<rparr>) ?w1
              = (Inl unidentified_image, ?w3)"
    using sample_decode_rejected by simp
  have "fst (swap_clothing ''key'' ?e (Some sample_person) (Some sample_clothing) 38 32 40 68
               ''2D Image'' empty_world)
          = (None, ''before'' @ nl @ ''Error processing image: cannot identify image file'' @ nl
                   @ ''after'' @ nl)"
    using decode_failure_appended_and_walk_continues [OF h1 h2 h3 h4 h5 h6 h7 h8]
    by (simp add: text_part_def unidentified_image_def)
  with h1 sample_decode_rejected show ?thesis by simp
qed

subsection \<open>A text part followed by an image part\<close>

text \<open>
  C4. When the content of the first candidate is one text part followed by one inline part
  whose payload is a \<^verbatim>\<open>bytes\<close> value that the image library decodes, \<^verbatim>\<open>swap_clothing\<close>
  returns the decoded image, so an image of the pixel dimensions of the payload, and the
  text of the text part followed by one line break.
\<close>

theorem text_then_png_result:
  assumes "request_phase api_key e person_image clothing_image chest waist hips height output_mode w
             = (Next (Some r), temp_files, uploaded_files, w1)"
    and "resp_candidates r = Some (cand # cs)"
    and "cand_content cand = Some ct"
    and "content_parts ct = Some [text_p, image_p]"
    and "part_text text_p = Some t"
    and "part_text image_p = None"
    and "part_inline_data image_p = Some b"
    and "blob_data b = Raw_bytes png"
    and "image_open e png = Inr img"
  shows "fst (swap_clothing api_key e person_image clothing_image chest waist hips height output_mode w)
           = (Some img, t @ nl)"
  using swap_clothing_walk [OF assms(1-4)] assms(5-9)
  by (simp add: decode_inline_def payload_bytes_def split: prod.split)

theorem text_then_png_result_witness:
  "request_phase ''key''
       (sample_env (Some (response_of
          [candidate_of [text_part ''A try-on result.'', inline_part (Raw_bytes [2, 1, 7, 8])]])))
       (Some sample_person) (Some sample_clothing) 38 32 40 68 ''2D Image'' empty_world
     = (Next (Some (response_of
          [candidate_of [text_part ''A try-on result.'', inline_part (Raw_bytes [2, 1, 7, 8])]])),
        [1, 2], sample_refs, sample_world [2, 1] [1, 2] (prompt 38 32 40 68 ''2D Image''))
   \<and> sample_open [2, 1, 7, 8] = Inr \<lparr>img_width = 2, img_height = 1, img_pixels = [7, 8]\<rparr>
   \<and> fst (swap_clothing ''key''
       (sample_env (Some (response_of
          [candidate_of [text_part ''A try-on result.'', inline_part (Raw_bytes [2, 1, 7, 8])]])))
       (Some sample_person) (Some sample_clothing) 38 32 40 68 ''2D Image'' empty_world)
     = (Some \<lparr>img_width = 2, img_height = 1, img_pixels = [7, 8]\<rparr>, ''A try-on result.'' @ nl)"
proof -
  let ?ps = "[text_part ''A try-on result.'', inline_part (Raw_bytes [2, 1, 7, 8])]"
  let ?r = "response_of [candidate_of ?ps]"
  let ?e = "sample_env (Some ?r)"
  let ?img = "\<lparr>img_width = 2, img_height = 1, img_pixels = [7, 8]\<rparr>"
  have h1: "request_phase ''key'' ?e (Some sample_person) (Some sample_clothing) 38 32 40 68
              ''2D Image'' empty_world
            = (Next (Some ?r), [1, 2], sample_refs,
               sample_world [2, 1] [1, 2] (prompt 38 32 40 68 ''2D Image''))"
    by (rule sample_request_phase)
  have h2: "resp_candidates ?r = Some (candidate_of ?ps # [])"
    by (simp add: response_of_def)
  have h3: "cand_content (candidate_of ?ps) = Some \<lparr>content_parts = Some ?ps\<rparr>"
    by (simp add: candidate_of_def)
  have h4: "content_parts \<lparr>content_parts = Some ?ps\<rparr> = Some ?ps"
    by simp
  have h5: "part_text (text_part ''A try-on result.'') = Some ''A try-on result.''"
    by (simp add: text_part_def)
  have h6: "part_text (inline_part (Raw_bytes [2, 1, 7, 8])) = None"
    by (simp add: inline_part_def)
  have h7: "part_inline_data (inline_part (Raw_bytes [2, 1, 7, 8]))
              = Some \<lparr>blob_data = Raw_bytes [2, 1, 7, 8]\<rparr>"
    by (simp add: inline_part_def)
  have h8: "blob_data \<lparr>blob_data = Raw_bytes [2, 1, 7, 8]\<rparr> = Raw_bytes [2, 1, 7, 8]"
    by simp
  have dec: "sample_open [2, 1, 7, 8] = Inr ?img"
    by (simp add: sample_open_def)
  then have h9: "image_open ?e [2, 1, 7, 8] = Inr ?img"
    by (simp add: sample_env_def)
  from h1 dec text_then_png_result [OF h1 h2 h3 h4 h5 h6 h7 h8 h9]
  show ?thesis by (simp only: simp_thms)
qed

subsection \<open>Which image is returned\<close>

lemma fst_decode_inline:
  "fst (decode_inline e d w)
     = (case payload_bytes e d of Inl x \<Rightarrow> Inl x | Inr bs \<Rightarrow> image_open e bs)"
  by (simp add: decode_inline_def split: sum.split prod.split)

lemma walk_parts_no_image:
  "list_all (\<lambda>q. \<not> yields_image e q) ps \<Longrightarrow> fst (walk_parts e ps (oi, ot, w)) = oi"
proof (induction ps arbitrary: ot w)
  case Nil
  show ?case by simp
next
  case (Cons p ps)
  from Cons.prems have rest: "list_all (\<lambda>q. \<not> yields_image e q) ps"
    and here: "\<not> yields_image e p" by simp_all
  note IH = Cons.IH [OF rest]
  show ?case
  proof (cases "part_text p")
    case (Some t)
    then show ?thesis by (simp add: IH)
  next
    case None
    note no_text = this
    show ?thesis
    proof (cases "part_inline_data p")
      case None
      with no_text show ?thesis by (simp add: IH)
    next
      case (Some b)
      obtain res w' where d: "decode_inline e (blob_data b) w = (res, w')"
        by (cases "decode_inline e (blob_data b) w")
      have "res = (case payload_bytes e (blob_data b) of Inl x \<Rightarrow> Inl x | Inr bs \<Rightarrow> image_open e bs)"
        using fst_decode_inline [of e "blob_data b" w] d by simp
      with here no_text Some obtain x where "res = Inl x"
        by (auto simp: yields_image_def split: sum.splits)
      with no_text Some d show ?thesis by (simp add: IH)
    qed
  qed
qed

text \<open>
  C3, as amended. The loop has no \<^verbatim>\<open>break\<close>, and every inline part that decodes assigns
  \<^verbatim>\<open>output_image\<close>: the image returned is the one decoded from the last part that
  carries no text and whose inline payload decodes, whatever the parts before it hold.
  The payload is taken as it is when it is a \<^verbatim>\<open>bytes\<close> value and base64-decoded otherwise.
\<close>

theorem last_decoded_inline_image_returned:
  assumes "request_phase api_key e person_image clothing_image chest waist hips height output_mode w
             = (Next (Some r), temp_files, uploaded_files, w1)"
    and "resp_candidates r = Some (cand # cs)"
    and "cand_content cand = Some ct"
    and "content_parts ct = Some (pre @ p # post)"
    and "part_text p = None"
    and "part_inline_data p = Some b"
    and "blob_data b = Raw_bytes bs \<or> (\<exists>s. blob_data b = B64_text s \<and> b64decode e s = Inr bs)"
    and "image_open e bs = Inr img"
    and "list_all (\<lambda>q. \<not> yields_image e q) post"
  shows "fst (fst (swap_clothing api_key e person_image clothing_image chest waist hips height
                     output_mode w)) = Some img"
proof -
  obtain oi ot w2 where pre: "walk_parts e pre (None, [], w1) = (oi, ot, w2)"
    by (cases "walk_parts e pre (None, [], w1)")
  from assms(7) have pb: "payload_bytes e (blob_data b) = Inr bs"
    by (auto simp: payload_bytes_def)
  obtain res w3 where d: "decode_inline e (blob_data b) w2 = (res, w3)"
    by (cases "decode_inline e (blob_data b) w2")
  have "res = Inr img"
    using fst_decode_inline [of e "blob_data b" w2] d pb assms(8) by simp
  with d have "walk_parts e (p # post) (oi, ot, w2) = walk_parts e post (Some img, ot, w3)"
    using assms(5,6) by simp
  with pre have "walk_parts e (pre @ p # post) (None, [], w1) = walk_parts e post (Some img, ot, w3)"
    by (simp only: walk_parts_append)
  moreover have "fst (walk_parts e post (Some img, ot, w3)) = Some img"
    using assms(9) by (rule walk_parts_no_image)
  ultimately show ?thesis
    using swap_clothing_walk [OF assms(1-4)] by (simp add: case_prod_beta)
qed


theorem last_decoded_inline_image_returned_witness:
  "request_phase ''key''
       (sample_env (Some (response_of
          [candidate_of
             [inline_part (Raw_bytes [1, 1, 5]), inline_part (B64_text ''AgEHCA==''),
              inline_part (Raw_bytes [9]), text_part ''done'']])))
       (Some sample_person) (Some sample_clothing) 38 32 40 68 ''2D Image'' empty_world
     = (Next (Some (response_of
          [candidate_of
             [inline_part (Raw_bytes [1, 1, 5]), inline_part (B64_text ''AgEHCA==''),
              inline_part (Raw_bytes [9]), text_part ''done'']])),
        [1, 2], sample_refs, sample_world [2, 1] [1, 2] (prompt 38 32 40 68 ''2D Image''))
   \<and> sample_b64decode ''AgEHCA=='' = Inr [2, 1, 7, 8]
   \<and> sample_open [2, 1, 7, 8] = Inr \<lparr>img_width = 2, img_height = 1, img_pixels = [7, 8]\<rparr>
   \<and> list_all (\<lambda>q. \<not> yields_image (sample_env None) q)
         [inline_part (Raw_bytes [9]), text_part ''done'']
   \<and> fst (fst (swap_clothing ''key''
       (sample_env (Some (response_of
          [candidate_of
             [inline_part (Raw_bytes [1, 1, 5]), inline_part (B64_text ''AgEHCA==''),
              inline_part (Raw_bytes [9]), text_part ''done'']])))
       (Some sample_person) (Some sample_clothing) 38 32 40 68 ''2D Image'' empty_world))
     = Some \<lparr>img_width = 2, img_height = 1, img_pixels = [7, 8]\<rparr>"
proof -
  let ?pre = "[inline_part (Raw_bytes [1, 1, 5])]"
  let ?p = "inline_part (B64_text ''AgEHCA=='')"
  let ?post = "[inline_part (Raw_bytes [9]), text_part ''done'']"
  let ?r = "response_of [candidate_of (?pre @ ?p # ?post)]"
  let ?e = "sample_env (Some ?r)"
  let ?img = "\<lparr>img_width = 2, img_height = 1, img_pixels = [7, 8]\<rparr>"
  have h1: "request_phase ''key'' ?e (Some sample_person) (Some sample_clothing) 38 32 40 68
              ''2D Image'' empty_world
            = (Next (Some ?r), [1, 2], sample_refs,
               sample_world [2, 1] [1, 2] (prompt 38 32 40 68 ''2D Image''))"
    by (rule sample_request_phase)
  have h2: "resp_candidates ?r = Some (candidate_of (?pre @ ?p # ?post) # [])"
    by (simp add: response_of_def)
  have h3: "cand_content (candidate_of (?pre @ ?p # ?post))
              = Some \<lparr>content_parts = Some (?pre @ ?p # ?post)\<rparr>"
    by (simp add: candidate_of_def)
  have h4: "content_parts \<lparr>content_parts = Some (?pre @ ?p # ?post)\<rparr> = Some (?pre @ ?p # ?post)"
    by simp
  have h5: "part_text ?p = None"
    by (simp add: inline_part_def)
  have h6: "part_inline_data ?p = Some \<lparr>blob_data = B64_text ''AgEHCA==''\<rparr>"
    by (simp add: inline_part_def)
  have b64: "sample_b64decode ''AgEHCA=='' = Inr [2, 1, 7, 8]"
    by (simp add: sample_b64decode_def)
  then have h7: "blob_data \<lparr>blob_data = B64_text ''AgEHCA==''\<rparr> = Raw_bytes [2, 1, 7, 8]
       \<or> (\<exists>s. blob_data \<lparr>blob_data = B64_text ''AgEHCA==''\<rparr> = B64_text s
               \<and> b64decode ?e s = Inr [2, 1, 7, 8])"
    by (simp add: sample_env_def)
  have dec: "sample_open [2, 1, 7, 8] = Inr ?img"
    by (simp add: sample_open_def)
  then have h8: "image_open ?e [2, 1, 7, 8] = Inr ?img"
    by (simp add: sample_env_def)
  have post: "list_all (\<lambda>q. \<not> yields_image (sample_env resp) q) ?post" for resp
    by (simp add: yields_image_def inline_part_def text_part_def payload_bytes_def
          sample_env_def sample_open_def)
  have "fst (fst (swap_clothing ''key'' ?e (Some sample_person) (Some sample_clothing) 38 32 40 68
                    ''2D Image'' empty_world)) = Some ?img"
    by (rule last_decoded_inline_image_returned [OF h1 h2 h3 h4 h5 h6 h7 h8 post])
  with h1 b64 dec post [of None] show ?thesis by simp
qed

subsection \<open>Sample runs\<close>

lemma sample_swap_clothing:
  "swap_clothing ''key'' (sample_env resp) (Some sample_person) (Some sample_clothing)
       chest waist hips height output_mode empty_world
     = (case demux (sample_env resp) resp
               (sample_world [2, 1] [1, 2] (prompt chest waist hips height output_mode)) of
          (Inl x, w2) \<Rightarrow> ((None, error_details x []), cleanup [1, 2] sample_refs w2)
        | (Inr r, w2) \<Rightarrow> (r, cleanup [1, 2] sample_refs w2))"
proof -
  have "recorded_warnings (sample_env resp) = []"
    by (simp add: sample_env_def)
  then show ?thesis
    by (simp del: One_nat_def add: swap_clothing_def sample_request_phase
          split: prod.split sum.split)
qed

lemma sample_demux_two_images:
  "demux (sample_env resp)
       (Some (response_of
          [candidate_of [inline_part (Raw_bytes [1, 1, 5]), inline_part (Raw_bytes [2, 1, 7, 8])]]))
       (sample_world [2, 1] [1, 2] pr)
     = (Inr (Some \<lparr>img_width = 2, img_height = 1, img_pixels = [7, 8]\<rparr>, []),
        sample_world [2, 1] [1, 2, 3, 3] pr)"
  by code_simp

text \<open>
  C3 as stated fails. With two inline parts that both decode, the first to a 1 by 1 image
  and the second to a 2 by 1 image, the image returned is the second one.
\<close>

theorem first_inline_image_counterexample:
  "sample_open [1, 1, 5] = Inr \<lparr>img_width = 1, img_height = 1, img_pixels = [5]\<rparr>
   \<and> fst (fst (swap_clothing ''key''
       (sample_env (Some (response_of
          [candidate_of [inline_part (Raw_bytes [1, 1, 5]), inline_part (Raw_bytes [2, 1, 7, 8])]])))
       (Some sample_person) (Some sample_clothing) 38 32 40 68 ''2D Image'' empty_world))
     = Some \<lparr>img_width = 2, img_height = 1, img_pixels = [7, 8]\<rparr>
   \<and> fst (fst (swap_clothing ''key''
       (sample_env (Some (response_of
          [candidate_of [inline_part (Raw_bytes [1, 1, 5]), inline_part (Raw_bytes [2, 1, 7, 8])]])))
       (Some sample_person) (Some sample_clothing) 38 32 40 68 ''2D Image'' empty_world))
     \<noteq> Some \<lparr>img_width = 1, img_height = 1, img_pixels = [5]\<rparr>"
  by (simp del: One_nat_def add: sample_swap_clothing sample_demux_two_images sample_open_def)

section \<open>Temporary files after the call\<close>

lemma sample_demux_undecodable:
  "demux (sample_env resp) (Some (response_of [candidate_of [inline_part (Raw_bytes [9])]]))
       (sample_world [2, 1] [1, 2] pr)
     = (Inr (None, ''Error processing image: cannot identify image file'' @ nl),
        sample_world [3, 2, 1] [1, 2, 3] pr)"
  by code_simp

lemma sample_cleanup_after_leak:
  "cleanup [1, 2] sample_refs (sample_world [3, 2, 1] [1, 2, 3] pr)
     = (sample_world [3] [1, 2, 3] pr)
         \<lparr>net_log := net_log (sample_world [3] [1, 2, 3] pr)
                      @ [Files_delete ''files/1'', Files_delete ''files/2'']\<rparr>"
  by code_simp

lemma sample_save_rejected:
  "swap_clothing ''key'' ((sample_env resp)\<lparr>image_save := \<lambda>img p. Some rgba_as_jpeg\<rparr>)
       (Some sample_person) (Some sample_clothing) chest waist hips height output_mode empty_world
     = ((None, ''Error: cannot write mode RGBA as JPEG | Type: OSError''),
        \<lparr>fs_files = [1], fs_created = [1], net_log = [Client_new ''key'']\<rparr>)"
  by (simp add: swap_clothing_def request_phase_def sample_env_def empty_world_def net_call_def
        named_temporary_file_def Let_def fresh_path_small cleanup_def error_details_def
        rgba_as_jpeg_def path_exists_def)

text \<open>
  C1 fails on the code. The \<^verbatim>\<open>finally\<close> block of lines 173 to 175 unlinks the names in
  \<^verbatim>\<open>temp_files\<close> only. The file of line 154 is unlinked at line 159, which is skipped
  when opening the image raises: with an inline payload that is no image, file 3 is still
  there after the call. A staging file enters \<^verbatim>\<open>temp_files\<close> after its image was saved
  (line 72), so when \<^verbatim>\<open>img.save\<close> raises, file 1 is still there after the call.
\<close>

theorem temp_file_left_behind:
  "leftover (snd (swap_clothing ''key''
       (sample_env (Some (response_of [candidate_of [inline_part (Raw_bytes [9])]])))
       (Some sample_person) (Some sample_clothing) 38 32 40 68 ''2D Image'' empty_world)) = [3]
   \<and> leftover (snd (swap_clothing ''key''
       ((sample_env None)\<lparr>image_save := \<lambda>img p. Some rgba_as_jpeg\<rparr>)
       (Some sample_person) (Some sample_clothing) 38 32 40 68 ''2D Image'' empty_world)) = [1]"
proof -
  let ?pr = "prompt 38 32 40 68 ''2D Image''"
  have "snd (swap_clothing ''key''
       (sample_env (Some (response_of [candidate_of [inline_part (Raw_bytes [9])]])))
       (Some sample_person) (Some sample_clothing) 38 32 40 68 ''2D Image'' empty_world)
     = (sample_world [3] [1, 2, 3] ?pr)
         \<lparr>net_log := net_log (sample_world [3] [1, 2, 3] ?pr)
                      @ [Files_delete ''files/1'', Files_delete ''files/2'']\<rparr>"
    by (simp del: One_nat_def
          add: sample_swap_clothing sample_demux_undecodable sample_cleanup_after_leak)
  then have "leftover (snd (swap_clothing ''key''
       (sample_env (Some (response_of [candidate_of [inline_part (Raw_bytes [9])]])))
       (Some sample_person) (Some sample_clothing) 38 32 40 68 ''2D Image'' empty_world)) = [3]"
    by (simp add: leftover_def path_exists_def sample_world_def)
  moreover have "leftover (snd (swap_clothing ''key''
       ((sample_env None)\<lparr>image_save := \<lambda>img p. Some rgba_as_jpeg\<rparr>)
       (Some sample_person) (Some sample_clothing) 38 32 40 68 ''2D Image'' empty_world)) = [1]"
    by (simp add: sample_save_rejected leftover_def path_exists_def)
  ultimately show ?thesis by (simp only: simp_thms)
qed

section \<open>A first candidate without content\<close>

text \<open>
  For a response without candidates the walk is not entered and the fixed message is the
  text returned.
\<close>

lemma no_candidates_fixed_message:
  assumes "request_phase api_key e person_image clothing_image chest waist hips height output_mode w
             = (Next resp, temp_files, uploaded_files, w1)"
    and "first_candidate resp = None"
  shows "fst (swap_clothing api_key e person_image clothing_image chest waist hips height output_mode w)
           = (None, ''The model did not generate a valid response. Try again.'')"
  using assms by (simp add: swap_clothing_def demux_def)

lemma no_content_empty_text:
  assumes "request_phase api_key e person_image clothing_image chest waist hips height output_mode w
             = (Next (Some r), temp_files, uploaded_files, w1)"
    and "resp_candidates r = Some (cand # cs)"
    and "cand_content cand = None"
  shows "fst (swap_clothing api_key e person_image clothing_image chest waist hips height output_mode w)
           = (None, [])"
  using assms by (simp add: swap_clothing_def demux_def first_candidate_def)

lemma sample_demux_no_content:
  "demux (sample_env resp) (Some (response_of [\<lparr>cand_content = None\<rparr>])) w = (Inr (None, []), w)"
  by (simp add: demux_def first_candidate_def response_of_def)

text \<open>
  C2 fails on the code for a first candidate without content. The \<^verbatim>\<open>else\<close> of line 162
  pairs with the \<^verbatim>\<open>if\<close> of line 143, not with the one of line 145: the text returned is
  empty, not the fixed message.
\<close>

theorem no_content_leaves_text_empty:
  "fst (swap_clothing ''key'' (sample_env (Some (response_of [\<lparr>cand_content = None\<rparr>])))
          (Some sample_person) (Some sample_clothing) 38 32 40 68 ''2D Image'' empty_world)
     = (None, [])
   \<and> [] \<noteq> ''The model did not generate a valid response. Try again.''"
  by (simp del: One_nat_def add: sample_swap_clothing sample_demux_no_content)

section \<open>Candidates after the first\<close>

text \<open>
  None of the steps before the generation call reads what the call will answer, and the
  walk reads the collaborators of decoding only.
\<close>

lemma stage_images_generate:
  "stage_images (e\<lparr>generate_content := g\<rparr>) imgs temp_files w = stage_images e imgs temp_files w"
  by (induction imgs arbitrary: temp_files w) (simp_all split: prod.split option.split)

lemma upload_both_generate:
  "upload_both (e\<lparr>generate_content := g\<rparr>) temp_files w = upload_both e temp_files w"
  by (simp add: upload_both_def split: list.split sum.split)

lemma decode_inline_generate:
  "decode_inline (e\<lparr>generate_content := g\<rparr>) d w = decode_inline e d w"
  by (simp add: decode_inline_def payload_bytes_def split: payload.split sum.split prod.split)

lemma walk_parts_generate:
  "walk_parts (e\<lparr>generate_content := g\<rparr>) ps st = walk_parts e ps st"
proof (induction ps arbitrary: st)
  case Nil
  show ?case by simp
next
  case (Cons p ps)
  obtain oi ot w where st: "st = (oi, ot, w)" by (cases st)
  show ?case unfolding st
    by (simp add: Cons.IH decode_inline_generate split: option.split sum.split prod.split)
qed

lemma demux_generate:
  "demux (e\<lparr>generate_content := g\<rparr>) resp w = demux e resp w"
  by (simp add: demux_def walk_parts_generate split: option.split prod.split)

lemma first_candidate_Cons:
  "first_candidate (Some \<lparr>resp_candidates = Some (cand # others)\<rparr>) = Some cand"
  by (simp add: first_candidate_def)

lemma demux_first_candidate:
  "first_candidate resp = first_candidate resp' \<Longrightarrow> demux e resp w = demux e resp' w"
  unfolding demux_def by (simp only:)

text \<open>What the request phase does with a generation call that answers.\<close>

lemma request_phase_answer:
  "request_phase api_key (e\<lparr>generate_content := \<lambda>f0 f1 pr. Inr resp\<rparr>) person_image clothing_image
       chest waist hips height output_mode w
     = (case request_phase api_key (e\<lparr>generate_content := \<lambda>f0 f1 pr. Inr None\<rparr>) person_image
               clothing_image chest waist hips height output_mode w of
          (Next x, rest) \<Rightarrow> (Next resp, rest)
        | (Return r, rest) \<Rightarrow> (Return r, rest)
        | (Raise x, rest) \<Rightarrow> (Raise x, rest))"
  by (simp add: request_phase_def stage_images_generate upload_both_generate
        split: option.split prod.split sum.split list.split)

text \<open>
  C10. Line 144 takes \<^verbatim>\<open>response.candidates[0]\<close> and no other element is read: a run whose
  generation call answers with the candidates \<open>cand # others\<close> returns the same image
  and text, and leaves the same world, as the run whose call answers with \<open>[cand]\<close>
  alone, whatever the other candidates hold and whether or not \<open>cand\<close> yields an image.
\<close>

theorem only_first_candidate_examined:
  "swap_clothing api_key
       (e\<lparr>generate_content := \<lambda>f0 f1 pr. Inr (Some \<lparr>resp_candidates = Some (cand # others)\<rparr>)\<rparr>)
       person_image clothing_image chest waist hips height output_mode w
     = swap_clothing api_key
         (e\<lparr>generate_content := \<lambda>f0 f1 pr. Inr (Some \<lparr>resp_candidates = Some [cand]\<rparr>)\<rparr>)
         person_image clothing_image chest waist hips height output_mode w"
proof -
  let ?many = "Some \<lparr>resp_candidates = Some (cand # others)\<rparr>"
  let ?one = "Some \<lparr>resp_candidates = Some [cand]\<rparr>"
  have "first_candidate ?many = first_candidate ?one"
    by (simp only: first_candidate_Cons)
  then have d: "demux e ?many w1 = demux e ?one w1" for w1
    by (rule demux_first_candidate)
  obtain out rest where rp:
    "request_phase api_key (e\<lparr>generate_content := \<lambda>f0 f1 pr. Inr None\<rparr>) person_image
       clothing_image chest waist hips height output_mode w = (out, rest)"
    by (cases "request_phase api_key (e\<lparr>generate_content := \<lambda>f0 f1 pr. Inr None\<rparr>) person_image
       clothing_image chest waist hips height output_mode w")
  obtain temp_files uploaded_files w1 where rest: "rest = (temp_files, uploaded_files, w1)"
    by (cases rest)
  show ?thesis
    unfolding swap_clothing_def request_phase_answer [where resp = ?many]
      request_phase_answer [where resp = ?one]
      rp rest
    by (cases out) (simp_all add: demux_generate d split: prod.split sum.split)
qed

text \<open>
  A sample run: the first candidate holds text only, the second an image that decodes; no
  image is returned.
\<close>

lemma sample_demux_second_candidate:
  "demux (sample_env resp)
       (Some (response_of
          [candidate_of [text_part ''only text''],
           candidate_of [inline_part (Raw_bytes [2, 1, 7, 8])]]))
       (sample_world [2, 1] [1, 2] pr)
     = (Inr (None, ''only text'' @ nl), sample_world [2, 1] [1, 2] pr)"
  by code_simp

lemma sample_second_candidate_ignored:
  "fst (swap_clothing ''key''
       (sample_env (Some (response_of
          [candidate_of [text_part ''only text''],
           candidate_of [inline_part (Raw_bytes [2, 1, 7, 8])]])))
       (Some sample_person) (Some sample_clothing) 38 32 40 68 ''2D Image'' empty_world)
     = (None, ''only text'' @ nl)"
  by (simp del: One_nat_def add: sample_swap_clothing sample_demux_second_candidate)

end
